theory Spec2Isabelle
  imports Main
begin

section \<open>The comoco store (store.js)\<close>

text \<open>
  The store of the comoco dashboard keeps the state of a websocket connection and a
  grouped view of the job queue. The embedding follows store.js function by function.

  Modelling decisions, all of them visible in the definitions below:
  \<^item> A JavaScript object is the finite map of its own properties (\<open>string \<rightharpoonup> 'v\<close>).
    The objects of the store are plain objects, so a read \<open>obj[key]\<close> that finds no own
    property finds the member of \<open>Object.prototype\<close> of that name, if there is one
    (\<open>constructor\<close>, \<open>toString\<close>, ...), and \<open>undefined\<close> otherwise. Wherever the key comes
    from a job, a message or the caller of a getter, the read is modelled so.
  \<^item> The weight \<open>n\<close> of a job is a count; it is an \<open>int\<close>, which adds as JavaScript's
    numbers do while the sums stay below \<open>2^53\<close>. A counter of the statistic is a number,
    \<open>NaN\<close> (what \<open>undefined + number\<close> gives) or a string (what \<open>+\<close> gives on an
    inherited member).
  \<^item> A job is a record with the two fields the store reads (\<open>state\<close>, \<open>n\<close>) and the
    remaining fields as a list.
  \<^item> \<open>jobStates\<close> and \<open>jobGroups\<close> come from settings.js; they are parameters: the list
    of the \<open>key: value\<close> entries of the object \<open>jobStates\<close>, and the array \<open>jobGroups\<close>.
    Where a statement needs the group names of the configuration to be ordinary names
    (not empty, not the name of a member of \<open>Object.prototype\<close>, not \<open>stat\<close>, not the name
    of another getter), it says so in its hypotheses.
  \<^item> The property \<open>__ob__\<close> that Vue keeps on the objects it observes is not modelled;
    no statement below reads it.
  \<^item> What a mutation does outside the store state (the socket kept in
    \<open>Vue.prototype.$socket\<close>, the objects sent through it, the console) is part of an
    explicit \<open>world\<close> record.
\<close>

subsection \<open>Values\<close>

text \<open>A counter of the statistic: a number, \<open>NaN\<close>, or a string.\<close>

datatype counter = Num int | NaN | Text string

record job =
  state :: string
  n :: int
  detail :: "(string \<times> string) list"

text \<open>A property of the queue object: the statistic or an array of jobs.\<close>

datatype qval = Stat "string \<rightharpoonup> counter" | Jobs "job list"

text \<open>
  An incoming socket message, \<open>{ name, created, data }\<close>. The store reads \<open>created\<close> and
  \<open>data\<close> of a summary message only, where \<open>data\<close> is the array of all jobs in the queue;
  the record has the three fields for every message.
\<close>

record ws_message =
  name :: string
  created :: string
  data :: "job list"

text \<open>
  \<open>state.socket\<close>. The field \<open>message\<close> starts as the empty string \<open>''\<close> (here \<open>None\<close>)
  and holds the last message afterwards.
\<close>

record socket_state =
  isConnected :: bool
  message :: "ws_message option"
  reconnectError :: bool

record store_state =
  queue :: "string \<rightharpoonup> qval"
  socket :: socket_state

text \<open>A DOM event; \<open>currentTarget\<close> is the websocket (a handle).\<close>

record event =
  currentTarget :: nat

text \<open>An object sent through the socket with \<open>sendObj\<close>: \<open>{ type, data }\<close>.\<close>

record outbound =
  obj_type :: string
  obj_data :: "string list"

datatype console_entry = ConsoleError store_state event | ConsoleInfo store_state nat

record world =
  store :: store_state
  dollar_socket :: "nat option"
  sent :: "(nat \<times> outbound) list"
  console :: "console_entry list"

definition initial_state :: store_state where
  "initial_state =
     \<lparr>queue = Map.empty,
      socket = \<lparr>isConnected = False, message = None, reconnectError = False\<rparr>\<rparr>"

definition initial_world :: world where
  "initial_world = \<lparr>store = initial_state, dollar_socket = None, sent = [], console = []\<rparr>"

subsection \<open>Grouping and statistic\<close>

text \<open>
  The names of the members of \<open>Object.prototype\<close>, which every plain object inherits.
  All of them are functions but \<open>__proto__\<close>, an accessor that reads as \<open>Object.prototype\<close>
  itself; all of them are truthy.
\<close>

definition object_prototype_names :: "string list" where
  "object_prototype_names =
     [''constructor'', ''__defineGetter__'', ''__defineSetter__'', ''hasOwnProperty'',
      ''__lookupGetter__'', ''__lookupSetter__'', ''isPrototypeOf'', ''propertyIsEnumerable'',
      ''toString'', ''valueOf'', ''__proto__'', ''toLocaleString'']"

text \<open>
  An inherited member as a string, which is what it becomes as a property key and as an
  operand of \<open>+\<close>: the source text of a native function,
  \<open>function toString() { [native code] }\<close> (the function under \<open>constructor\<close> is named
  \<open>Object\<close>), and \<open>[object Object]\<close> for \<open>Object.prototype\<close>.
\<close>

definition member_text :: "string \<Rightarrow> string" where
  "member_text k =
     (if k = ''__proto__'' then ''[object Object]''
      else ''function '' @ (if k = ''constructor'' then ''Object'' else k) @ ''() { [native code] }'')"

text \<open>A whole number as a string, in decimal, as \<open>+\<close> writes it next to a string.\<close>

fun nat_text :: "nat \<Rightarrow> string" where
  "nat_text k =
     (if k < 10 then [''0123456789'' ! k]
      else nat_text (k div 10) @ [''0123456789'' ! (k mod 10)])"

definition number_text :: "int \<Rightarrow> string" where
  "number_text i = (if i < 0 then CHR ''-'' # nat_text (nat (- i)) else nat_text (nat i))"

text \<open>
  Modelled from the spec: \<open>createObjectWithDefaultValues\<close> of ./helper, which is not
  among the sources. The spec calls its result a counter mapping with one count per
  state: an object with the keys of its argument, every value the number 0.
\<close>

definition createObjectWithDefaultValues :: "(string \<times> string) list \<Rightarrow> (string \<rightharpoonup> counter)" where
  "createObjectWithDefaultValues obj = map_of (map (\<lambda>(k, v). (k, Num 0)) obj)"

text \<open>
  \<open>obj[key] += k\<close> on the statistic, \<open>k\<close> a number. An own number grows by \<open>k\<close>; an own
  \<open>NaN\<close> stays; an own string gets the digits of \<open>k\<close> appended. Without an own property
  the read finds an inherited member or \<open>undefined\<close>: a member plus \<open>k\<close> is the member's
  text followed by the digits of \<open>k\<close>, and \<open>undefined + k\<close> is \<open>NaN\<close>. The result becomes
  an own property, except under \<open>__proto__\<close>, whose setter ignores a string.
\<close>

definition plus_assign :: "(string \<rightharpoonup> counter) \<Rightarrow> string \<Rightarrow> int \<Rightarrow> (string \<rightharpoonup> counter)" where
  "plus_assign obj key k =
     (case obj key of
        Some (Num a) \<Rightarrow> obj(key \<mapsto> Num (a + k))
      | Some NaN \<Rightarrow> obj(key \<mapsto> NaN)
      | Some (Text t) \<Rightarrow> obj(key \<mapsto> Text (t @ number_text k))
      | None \<Rightarrow>
          if key = ''__proto__'' then obj
          else if key \<in> set object_prototype_names
          then obj(key \<mapsto> Text (member_text key @ number_text k))
          else obj(key \<mapsto> NaN))"

text \<open>
  \<open>jobStates[jobState] || 'other'\<close>, as the property key it is used for. An own group
  name is taken unless it is the empty string, which is falsy. Without an own property
  the read finds an inherited member, which is truthy and becomes its text as a key, or
  \<open>undefined\<close>, which gives \<open>other\<close>.
\<close>

definition group_or_other :: "(string \<times> string) list \<Rightarrow> string \<Rightarrow> string" where
  "group_or_other jobStates jobState =
     (case map_of jobStates jobState of
        Some g \<Rightarrow> if g = [] then ''other'' else g
      | None \<Rightarrow>
          if jobState \<in> set object_prototype_names then member_text jobState
          else ''other'')"

text \<open>
  The body of \<open>arr.forEach\<close> in \<open>groupDataAndJobStat\<close>, on the pair of the two objects
  it updates, \<open>groupsDict\<close> and \<open>initialState\<close>. The key \<open>group\<close> of \<open>groupsDict[group]\<close> is
  a group name of the configuration, \<open>other\<close> or the text of an inherited member; the
  read is that of an own property, which is the read of the code unless the
  configuration names a group like a member of \<open>Object.prototype\<close>.
\<close>

definition forEach_body ::
  "(string \<times> string) list \<Rightarrow> (job \<Rightarrow> string) \<Rightarrow>
   (string \<rightharpoonup> job list) \<times> (string \<rightharpoonup> counter) \<Rightarrow> job \<Rightarrow>
   (string \<rightharpoonup> job list) \<times> (string \<rightharpoonup> counter)" where
  "forEach_body jobStates groupingKey acc j =
     (let groupsDict = fst acc;
          initialState = snd acc;
          jobState = groupingKey j;
          group = group_or_other jobStates jobState;
          bucket = (case groupsDict group of None \<Rightarrow> [] | Some b \<Rightarrow> b)
      in (groupsDict(group \<mapsto> bucket @ [j]),
          plus_assign initialState jobState (n j)))"

text \<open>
  \<open>groupDataAndJobStat (created, arr, groupingKey)\<close>. The grouping key is passed as the
  field it selects (\<open>state\<close> at the only call). The result is
  \<open>{ 'stat': initialState, ...groupsDict }\<close>: the spread comes second, so a group named
  \<open>stat\<close> would replace the statistic.
\<close>

definition groupDataAndJobStat ::
  "(string \<times> string) list \<Rightarrow> string \<Rightarrow> job list \<Rightarrow> (job \<Rightarrow> string) \<Rightarrow> (string \<rightharpoonup> qval)" where
  "groupDataAndJobStat jobStates created' arr groupingKey =
     (let acc = foldl (forEach_body jobStates groupingKey)
                  (Map.empty, createObjectWithDefaultValues jobStates) arr
      in [''stat'' \<mapsto> Stat (snd acc)] ++ (map_option Jobs \<circ> fst acc))"

subsection \<open>Mutations\<close>

definition SOCKET_ONOPEN :: "world \<Rightarrow> event \<Rightarrow> world" where
  "SOCKET_ONOPEN w ev =
     w\<lparr>dollar_socket := Some (currentTarget ev),
       sent := sent w @ [(currentTarget ev, \<lparr>obj_type = ''interest'', obj_data = [''queue'']\<rparr>)],
       store := (store w)\<lparr>socket := (socket (store w))\<lparr>isConnected := True\<rparr>\<rparr>\<rparr>"

definition SOCKET_ONCLOSE :: "world \<Rightarrow> event \<Rightarrow> world" where
  "SOCKET_ONCLOSE w ev =
     w\<lparr>store := (store w)\<lparr>socket := (socket (store w))\<lparr>isConnected := False\<rparr>\<rparr>\<rparr>"

definition SOCKET_ONERROR :: "world \<Rightarrow> event \<Rightarrow> world" where
  "SOCKET_ONERROR w ev = w\<lparr>console := console w @ [ConsoleError (store w) ev]\<rparr>"

definition SOCKET_ONMESSAGE :: "(string \<times> string) list \<Rightarrow> world \<Rightarrow> ws_message \<Rightarrow> world" where
  "SOCKET_ONMESSAGE jobStates w m =
     (let s1 = (store w)\<lparr>socket := (socket (store w))\<lparr>message := Some m\<rparr>\<rparr>;
          s2 = (if name m = ''summary''
                then s1\<lparr>queue := groupDataAndJobStat jobStates (created m) (data m) state\<rparr>
                else s1)
      in w\<lparr>store := s2\<rparr>)"

definition SOCKET_RECONNECT :: "world \<Rightarrow> nat \<Rightarrow> world" where
  "SOCKET_RECONNECT w count = w\<lparr>console := console w @ [ConsoleInfo (store w) count]\<rparr>"

definition SOCKET_RECONNECT_ERROR :: "world \<Rightarrow> world" where
  "SOCKET_RECONNECT_ERROR w =
     w\<lparr>store := (store w)\<lparr>socket := (socket (store w))\<lparr>reconnectError := True\<rparr>\<rparr>\<rparr>"

text \<open>The socket events the store is subscribed to, and a run of the store over them.\<close>

datatype socket_event =
    OnOpen event
  | OnClose event
  | OnError event
  | OnMessage ws_message
  | Reconnect nat
  | ReconnectError

fun commit :: "(string \<times> string) list \<Rightarrow> world \<Rightarrow> socket_event \<Rightarrow> world" where
  "commit jobStates w (OnOpen ev) = SOCKET_ONOPEN w ev"
| "commit jobStates w (OnClose ev) = SOCKET_ONCLOSE w ev"
| "commit jobStates w (OnError ev) = SOCKET_ONERROR w ev"
| "commit jobStates w (OnMessage m) = SOCKET_ONMESSAGE jobStates w m"
| "commit jobStates w (Reconnect count) = SOCKET_RECONNECT w count"
| "commit jobStates w ReconnectError = SOCKET_RECONNECT_ERROR w"

definition run :: "(string \<times> string) list \<Rightarrow> world \<Rightarrow> socket_event list \<Rightarrow> world" where
  "run jobStates w evs = foldl (commit jobStates) w evs"

subsection \<open>Getters\<close>

text \<open>
  What a getter of the store returns, and what a read of the object of all getters
  finds: \<open>undefined\<close>, a property of the queue (the statistic or an array of jobs), a
  member inherited from \<open>Object.prototype\<close> (by its name), or one of the two
  function-valued getters.
\<close>

datatype getter_value =
    Undefined
  | Property qval
  | Member string
  | JobsByGroupNameFunction
  | StateCounterFunction

text \<open>
  \<open>clone\<close> is the deep copy helper of the package pnbi-base. The getters clone arrays of
  jobs; a deep copy of such a value equals the value.
\<close>

definition clone :: "getter_value \<Rightarrow> getter_value" where
  "clone v = v"

text \<open>
  \<open>mapGettersJobGroups (arr)\<close>: one getter per group name,
  \<open>(state) => clone(state.queue[currentItem] || [])\<close>. An object, an array and an
  inherited member are truthy, so \<open>[]\<close> stands in for \<open>undefined\<close> only. The assignment
  \<open>computedResult[currentItem] = ...\<close> makes an own property, except under \<open>__proto__\<close>,
  whose setter makes none.
\<close>

definition group_getter :: "string \<Rightarrow> store_state \<Rightarrow> getter_value" where
  "group_getter currentItem s =
     clone (case queue s currentItem of
              Some v \<Rightarrow> Property v
            | None \<Rightarrow>
                if currentItem \<in> set object_prototype_names then Member currentItem
                else Property (Jobs []))"

definition mapGettersJobGroups :: "string list \<Rightarrow> (string \<rightharpoonup> (store_state \<Rightarrow> getter_value))" where
  "mapGettersJobGroups arr =
     foldl (\<lambda>computedResult currentItem.
              if currentItem = ''__proto__'' then computedResult
              else computedResult(currentItem \<mapsto> group_getter currentItem))
       Map.empty arr"

text \<open>
  The own properties of the object of all getters,
  \<open>{ ...mapGettersJobGroups(jobGroups), getJobsByGroupName, getStateCounter }\<close>, each
  with the value it has in the state \<open>s\<close>.
\<close>

definition getters :: "string list \<Rightarrow> store_state \<Rightarrow> (string \<rightharpoonup> getter_value)" where
  "getters jobGroups s =
     ((map_option (\<lambda>f. f s) \<circ> mapGettersJobGroups jobGroups)
        (''getJobsByGroupName'' \<mapsto> JobsByGroupNameFunction))
        (''getStateCounter'' \<mapsto> StateCounterFunction)"

text \<open>
  \<open>getJobsByGroupName\<close>: \<open>getters[groupName]\<close>, a read of a plain object: an own getter,
  else an inherited member, else \<open>undefined\<close>.
\<close>

definition getJobsByGroupName :: "string list \<Rightarrow> store_state \<Rightarrow> string \<Rightarrow> getter_value" where
  "getJobsByGroupName jobGroups s groupName =
     (case getters jobGroups s groupName of
        Some v \<Rightarrow> v
      | None \<Rightarrow>
          if groupName \<in> set object_prototype_names then Member groupName
          else Undefined)"

text \<open>
  \<open>state.queue.stat[currentItem] || 0\<close>: an own number (\<open>0\<close> is falsy and gives \<open>0\<close>), \<open>0\<close>
  for an own \<open>NaN\<close> and an own empty string, an own string; without an own property an
  inherited member, as its text (which is what \<open>+\<close> makes of it), or \<open>0\<close> for
  \<open>undefined\<close>.
\<close>

definition counter_or_0 :: "(string \<rightharpoonup> counter) \<Rightarrow> string \<Rightarrow> counter" where
  "counter_or_0 st currentItem =
     (case st currentItem of
        Some (Num a) \<Rightarrow> Num a
      | Some NaN \<Rightarrow> Num 0
      | Some (Text t) \<Rightarrow> if t = [] then Num 0 else Text t
      | None \<Rightarrow>
          if currentItem \<in> set object_prototype_names then Text (member_text currentItem)
          else Num 0)"

text \<open>
  \<open>previousValue += v\<close>: numbers add; as soon as one side is a string the other side is
  written as a string and the two are joined.
\<close>

fun counter_text :: "counter \<Rightarrow> string" where
  "counter_text (Num a) = number_text a"
| "counter_text NaN = ''NaN''"
| "counter_text (Text t) = t"

fun js_plus :: "counter \<Rightarrow> counter \<Rightarrow> counter" where
  "js_plus (Num a) (Num b) = Num (a + b)"
| "js_plus (Num a) NaN = NaN"
| "js_plus NaN (Num b) = NaN"
| "js_plus NaN NaN = NaN"
| "js_plus (Text s) v = Text (s @ counter_text v)"
| "js_plus v (Text t) = Text (counter_text v @ t)"

text \<open>
  \<open>getStateCounter\<close>: 0 when \<open>state.queue.stat\<close> is \<open>undefined\<close> (\<open>stat\<close> is no inherited
  name); otherwise the reduce over the state names. When a job array stands under
  \<open>stat\<close>, which takes a group named \<open>stat\<close> in the configuration, the reduce reads
  properties of an array, own and inherited from \<open>Array.prototype\<close>; that case has no
  value here (\<open>None\<close>).
\<close>

definition getStateCounter :: "store_state \<Rightarrow> string list \<Rightarrow> counter option" where
  "getStateCounter s stateName =
     (case queue s ''stat'' of
        None \<Rightarrow> Some (Num 0)
      | Some (Stat st) \<Rightarrow>
          Some (foldl (\<lambda>previousValue currentItem.
                         js_plus previousValue (counter_or_0 st currentItem))
                  (Num 0) stateName)
      | Some (Jobs js) \<Rightarrow> None)"

subsection \<open>Reading the queue object\<close>

text \<open>
  \<open>queue[g]\<close> read as a bucket of jobs: the array under the name \<open>g\<close>, and no job when
  the name is missing or holds the statistic. \<open>appears_in q g j\<close>: the job \<open>j\<close> is in the
  bucket named \<open>g\<close>.
\<close>

definition bucket :: "(string \<rightharpoonup> qval) \<Rightarrow> string \<Rightarrow> job list" where
  "bucket q g = (case q g of Some (Jobs js) \<Rightarrow> js | Some (Stat st) \<Rightarrow> [] | None \<Rightarrow> [])"

definition appears_in :: "(string \<rightharpoonup> qval) \<Rightarrow> string \<Rightarrow> job \<Rightarrow> bool" where
  "appears_in q g j = (j \<in> set (bucket q g))"

text \<open>
  The own property \<open>k\<close> of \<open>queue.stat\<close>: the counter of the state \<open>k\<close>, \<open>None\<close> when the
  statistic has none.
\<close>

definition stat_entry :: "(string \<rightharpoonup> qval) \<Rightarrow> string \<Rightarrow> counter option" where
  "stat_entry q k =
     (case q ''stat'' of Some (Stat st) \<Rightarrow> st k | Some (Jobs js) \<Rightarrow> None | None \<Rightarrow> None)"

subsection \<open>The connection flag as the events determine it\<close>

text \<open>
  Following the words of the specification, not the code: the connection flag starts
  false, and it is true exactly when the most recent open or close event of the sequence
  was an open event.
\<close>

fun is_open_close :: "socket_event \<Rightarrow> bool" where
  "is_open_close (OnOpen ev) = True"
| "is_open_close (OnClose ev) = True"
| "is_open_close e = False"

fun is_open :: "socket_event \<Rightarrow> bool" where
  "is_open (OnOpen ev) = True"
| "is_open e = False"

definition spec_isConnected :: "socket_event list \<Rightarrow> bool" where
  "spec_isConnected evs =
     (case rev (filter is_open_close evs) of [] \<Rightarrow> False | e # es \<Rightarrow> is_open e)"

subsection \<open>A configuration and a snapshot to evaluate on\<close>

text \<open>
  The group names are those of the comment of \<open>mapGettersJobGroups\<close>
  (\<open>['waiting', 'running', 'stopped']\<close>). The snapshot holds one job of a configured
  state and one of a state the configuration does not know.
\<close>

definition example_jobStates :: "(string \<times> string) list" where
  "example_jobStates =
     [(''pending'', ''waiting''), (''running'', ''running''), (''error'', ''stopped'')]"

definition example_jobGroups :: "string list" where
  "example_jobGroups = [''waiting'', ''running'', ''stopped'']"

definition example_jobs :: "job list" where
  "example_jobs =
     [\<lparr>state = ''pending'', n = 2, detail = []\<rparr>, \<lparr>state = ''zombie'', n = 3, detail = []\<rparr>]"

definition example_summary :: ws_message where
  "example_summary =
     \<lparr>name = ''summary'', created = ''2019-01-01T00:00:00'', data = example_jobs\<rparr>"

definition example_other_message :: ws_message where
  "example_other_message = \<lparr>name = ''event'', created = ''2019-01-01T00:00:01'', data = []\<rparr>"

definition example_events :: "socket_event list" where
  "example_events =
     [OnOpen \<lparr>currentTarget = 0\<rparr>, OnMessage example_other_message, ReconnectError]"

section \<open>Properties\<close>

subsection \<open>The loop of the grouping\<close>

text \<open>One pass of the loop body, read at one key of each of the two objects.\<close>

lemma fst_body:
  "fst (forEach_body cfg key acc j) g =
     (if group_or_other cfg (key j) = g
      then Some ((case fst acc g of None \<Rightarrow> [] | Some b \<Rightarrow> b) @ [j])
      else fst acc g)"
  by (auto simp: forEach_body_def Let_def)

lemma snd_body:
  "snd (forEach_body cfg key acc j) = plus_assign (snd acc) (key j) (n j)"
  by (simp add: forEach_body_def Let_def)

lemma plus_assign_other:
  "k \<noteq> key \<Longrightarrow> plus_assign obj key v k = obj k"
proof (cases "obj key")
  case None
  then show "k \<noteq> key \<Longrightarrow> ?thesis" by (simp add: plus_assign_def)
next
  case (Some c)
  then show "k \<noteq> key \<Longrightarrow> ?thesis" by (cases c) (simp_all add: plus_assign_def)
qed

lemma plus_assign_Num:
  "obj key = Some (Num a) \<Longrightarrow> plus_assign obj key v key = Some (Num (a + v))"
  by (simp add: plus_assign_def)

lemma plus_assign_NaN:
  "obj key = Some NaN \<Longrightarrow> plus_assign obj key v key = Some NaN"
  by (simp add: plus_assign_def)

lemma plus_assign_None:
  "obj key = None \<Longrightarrow> key \<notin> set object_prototype_names \<Longrightarrow>
   plus_assign obj key v key = Some NaN"
  by (auto simp: plus_assign_def object_prototype_names_def)

text \<open>
  After the loop: the bucket of a group has grown by the jobs of that group, in their
  order; a counter that was a number has grown by their weights; a counter that was
  \<open>NaN\<close> stays \<open>NaN\<close>; a counter that was missing, under a name that no plain object
  inherits, is \<open>NaN\<close> as soon as one job carries its state.
\<close>

lemma fst_forEach:
  "fst (foldl (forEach_body cfg key) acc arr) g =
     (if filter (\<lambda>j. group_or_other cfg (key j) = g) arr = [] then fst acc g
      else Some ((case fst acc g of None \<Rightarrow> [] | Some b \<Rightarrow> b) @
                 filter (\<lambda>j. group_or_other cfg (key j) = g) arr))"
proof (induction arr arbitrary: acc)
  case Nil
  show ?case by simp
next
  case (Cons j arr)
  have "fst (foldl (forEach_body cfg key) acc (j # arr)) g =
        fst (foldl (forEach_body cfg key) (forEach_body cfg key acc j) arr) g"
    by simp
  also have "\<dots> =
     (if filter (\<lambda>j. group_or_other cfg (key j) = g) arr = []
      then fst (forEach_body cfg key acc j) g
      else Some ((case fst (forEach_body cfg key acc j) g of None \<Rightarrow> [] | Some b \<Rightarrow> b) @
                 filter (\<lambda>j. group_or_other cfg (key j) = g) arr))"
    by (rule Cons.IH)
  also have "\<dots> =
     (if filter (\<lambda>j. group_or_other cfg (key j) = g) (j # arr) = [] then fst acc g
      else Some ((case fst acc g of None \<Rightarrow> [] | Some b \<Rightarrow> b) @
                 filter (\<lambda>j. group_or_other cfg (key j) = g) (j # arr)))"
    by (simp add: fst_body split: option.split)
  finally show ?case .
qed

lemma snd_forEach_Num:
  "snd acc k = Some (Num a) \<Longrightarrow>
   snd (foldl (forEach_body cfg key) acc arr) k =
     Some (Num (a + sum_list (map n (filter (\<lambda>j. key j = k) arr))))"
proof (induction arr arbitrary: acc a)
  case Nil
  then show ?case by simp
next
  case (Cons j arr)
  show ?case
  proof (cases "key j = k")
    case True
    have "snd (forEach_body cfg key acc j) k = Some (Num (a + n j))"
      using Cons.prems True by (simp add: snd_body plus_assign_Num)
    from Cons.IH [OF this] True show ?thesis by (simp add: add.assoc)
  next
    case False
    have "snd (forEach_body cfg key acc j) k = Some (Num a)"
      using Cons.prems False by (simp add: snd_body plus_assign_other)
    from Cons.IH [OF this] False show ?thesis by simp
  qed
qed

lemma snd_forEach_NaN:
  "snd acc k = Some NaN \<Longrightarrow> snd (foldl (forEach_body cfg key) acc arr) k = Some NaN"
proof (induction arr arbitrary: acc)
  case Nil
  then show ?case by simp
next
  case (Cons j arr)
  have "snd (forEach_body cfg key acc j) k = Some NaN"
    using Cons.prems by (cases "key j = k") (simp_all add: snd_body plus_assign_NaN plus_assign_other)
  from Cons.IH [OF this] show ?case by simp
qed

lemma snd_forEach_None:
  "snd acc k = None \<Longrightarrow> k \<notin> set object_prototype_names \<Longrightarrow>
   snd (foldl (forEach_body cfg key) acc arr) k =
     (if filter (\<lambda>j. key j = k) arr = [] then None else Some NaN)"
proof (induction arr arbitrary: acc)
  case Nil
  then show ?case by simp
next
  case (Cons j arr)
  show ?case
  proof (cases "key j = k")
    case True
    have "snd (forEach_body cfg key acc j) k = Some NaN"
      using Cons.prems True by (simp add: snd_body plus_assign_None)
    from snd_forEach_NaN [OF this] True show ?thesis by simp
  next
    case False
    have "snd (forEach_body cfg key acc j) k = None"
      using Cons.prems False by (simp add: snd_body plus_assign_other)
    from Cons.IH [OF this Cons.prems(2)] False show ?thesis by simp
  qed
qed

lemma createObject_lookup:
  "createObjectWithDefaultValues cfg k = (if k \<in> fst ` set cfg then Some (Num 0) else None)"
  unfolding createObjectWithDefaultValues_def
  by (induction cfg) auto

text \<open>
  The object the grouping returns, read at a name: the jobs of the group of that name in
  the order of the list when there are any, else the statistic under \<open>stat\<close>, else
  nothing.
\<close>

lemma groupDataAndJobStat_lookup:
  "groupDataAndJobStat cfg c arr key g =
     (if filter (\<lambda>j. group_or_other cfg (key j) = g) arr \<noteq> []
      then Some (Jobs (filter (\<lambda>j. group_or_other cfg (key j) = g) arr))
      else if g = ''stat''
      then Some (Stat (snd (foldl (forEach_body cfg key)
                         (Map.empty, createObjectWithDefaultValues cfg) arr)))
      else None)"
  by (simp add: groupDataAndJobStat_def Let_def map_add_def fst_forEach)

lemma bucket_groupDataAndJobStat:
  "bucket (groupDataAndJobStat cfg c arr key) g =
     filter (\<lambda>j. group_or_other cfg (key j) = g) arr"
  by (simp add: bucket_def groupDataAndJobStat_lookup)

lemma count_list_filter_eq:
  "count_list (filter P xs) x = (if P x then count_list xs x else 0)"
  by (induction xs) auto

lemma group_or_other_configured:
  "[] \<notin> snd ` set cfg \<Longrightarrow> map_of cfg k = Some g \<Longrightarrow> group_or_other cfg k = g"
  by (auto simp: group_or_other_def dest!: map_of_SomeD intro: rev_image_eqI)

lemma group_or_other_unknown:
  "map_of cfg k = None \<Longrightarrow> k \<notin> set object_prototype_names \<Longrightarrow>
   group_or_other cfg k = ''other''"
  by (simp add: group_or_other_def)

lemma member_text_not_stat: "member_text k \<noteq> ''stat''"
  by (simp add: member_text_def)

text \<open>
  The counters, when no group is named \<open>stat\<close>: the counter of a configured state is
  the sum of the weights of the jobs carrying it; the counter of any other state,
  unless its name is that of an inherited member, is missing while no job carries it
  and \<open>NaN\<close> otherwise. When every job carries a
  configured state, the counters add up to the sum of all weights.
\<close>

lemma stat_entry_groupDataAndJobStat:
  assumes "''stat'' \<notin> snd ` set cfg"
  shows "stat_entry (groupDataAndJobStat cfg c arr key) k =
           snd (foldl (forEach_body cfg key) (Map.empty, createObjectWithDefaultValues cfg) arr) k"
proof -
  have "group_or_other cfg s \<noteq> ''stat''" for s
    using assms
    by (auto simp: group_or_other_def member_text_not_stat split: option.splits
          dest!: map_of_SomeD intro: rev_image_eqI)
  then have "filter (\<lambda>j. group_or_other cfg (key j) = ''stat'') arr = []"
    by simp
  then show ?thesis
    by (simp add: stat_entry_def groupDataAndJobStat_lookup)
qed

lemma stat_entry_configured:
  assumes "''stat'' \<notin> snd ` set cfg" and "k \<in> fst ` set cfg"
  shows "stat_entry (groupDataAndJobStat cfg c arr key) k =
           Some (Num (sum_list (map n (filter (\<lambda>j. key j = k) arr))))"
proof -
  have "snd (Map.empty :: string \<rightharpoonup> job list, createObjectWithDefaultValues cfg) k = Some (Num 0)"
    using assms(2) by (simp add: createObject_lookup)
  from snd_forEach_Num [OF this] show ?thesis
    by (simp add: stat_entry_groupDataAndJobStat [OF assms(1)])
qed

lemma stat_entry_unknown:
  assumes "''stat'' \<notin> snd ` set cfg" and "k \<notin> fst ` set cfg"
    and "k \<notin> set object_prototype_names"
  shows "stat_entry (groupDataAndJobStat cfg c arr key) k =
           (if filter (\<lambda>j. key j = k) arr = [] then None else Some NaN)"
proof -
  have "snd (Map.empty :: string \<rightharpoonup> job list, createObjectWithDefaultValues cfg) k = None"
    using assms(2) by (simp add: createObject_lookup)
  from snd_forEach_None [OF this assms(3)] show ?thesis
    by (simp add: stat_entry_groupDataAndJobStat [OF assms(1)])
qed

lemma sum_per_state:
  "\<forall>j\<in>set arr. key j \<in> K \<Longrightarrow> finite K \<Longrightarrow>
   (\<Sum>k\<in>K. sum_list (map n (filter (\<lambda>j. key j = k) arr))) = sum_list (map n arr)"
proof (induction arr)
  case Nil
  show ?case by simp
next
  case (Cons j arr)
  have "(\<Sum>k\<in>K. sum_list (map n (filter (\<lambda>j. key j = k) (j # arr)))) =
        (\<Sum>k\<in>K. (if key j = k then n j else 0) + sum_list (map n (filter (\<lambda>j. key j = k) arr)))"
    by (rule sum.cong) simp_all
  also have "\<dots> = (\<Sum>k\<in>K. if key j = k then n j else 0) +
                  (\<Sum>k\<in>K. sum_list (map n (filter (\<lambda>j. key j = k) arr)))"
    by (rule sum.distrib)
  also have "(\<Sum>k\<in>K. if key j = k then n j else 0) = n j"
    using Cons.prems by (simp add: sum.delta')
  also have "(\<Sum>k\<in>K. sum_list (map n (filter (\<lambda>j. key j = k) arr))) = sum_list (map n arr)"
    using Cons.prems by (intro Cons.IH) simp_all
  finally show ?case by simp
qed

lemma stat_total_configured:
  assumes "''stat'' \<notin> snd ` set cfg" and "\<forall>j\<in>set arr. key j \<in> fst ` set cfg"
  shows "(\<Sum>k\<in>fst ` set cfg.
            (case stat_entry (groupDataAndJobStat cfg c arr key) k of
               Some (Num a) \<Rightarrow> a | _ \<Rightarrow> 0)) =
           sum_list (map n arr)"
proof -
  have "(\<Sum>k\<in>fst ` set cfg.
            (case stat_entry (groupDataAndJobStat cfg c arr key) k of
               Some (Num a) \<Rightarrow> a | _ \<Rightarrow> 0)) =
        (\<Sum>k\<in>fst ` set cfg. sum_list (map n (filter (\<lambda>j. key j = k) arr)))"
    by (rule sum.cong) (simp_all add: stat_entry_configured [OF assms(1)])
  also have "\<dots> = sum_list (map n arr)"
    using assms(2) by (intro sum_per_state) simp_all
  finally show ?thesis .
qed

subsection \<open>Grouping (C1, C2, C10)\<close>

text \<open>
  A job whose state is not the name of a member of \<open>Object.prototype\<close> is in exactly one
  bucket, as often as it is in the list: the bucket \<open>jobStates\<close> names for its state, or
  \<open>other\<close> when the state is no key. The group names of the configuration are taken to
  be non-empty.
\<close>

lemma ordinary_state_in_one_bucket:
  assumes "[] \<notin> snd ` set jobStates" and "j \<in> set arr"
    and "state j \<notin> set object_prototype_names"
  shows "(\<forall>g. map_of jobStates (state j) = Some g \<longrightarrow>
            appears_in (groupDataAndJobStat jobStates c arr state) g j \<and>
            count_list (bucket (groupDataAndJobStat jobStates c arr state) g) j = count_list arr j \<and>
            (\<forall>g'. appears_in (groupDataAndJobStat jobStates c arr state) g' j \<longrightarrow> g' = g)) \<and>
         (map_of jobStates (state j) = None \<longrightarrow>
            appears_in (groupDataAndJobStat jobStates c arr state) ''other'' j \<and>
            count_list (bucket (groupDataAndJobStat jobStates c arr state) ''other'') j = count_list arr j \<and>
            (\<forall>g'. appears_in (groupDataAndJobStat jobStates c arr state) g' j \<longrightarrow> g' = ''other''))"
  using assms
  by (auto simp: appears_in_def bucket_groupDataAndJobStat count_list_filter_eq
        group_or_other_configured group_or_other_unknown)

text \<open>
  C1. The claim: a job whose state is not a key of \<open>jobStates\<close> appears in the bucket
  \<open>other\<close>, and only there. The code at a job of the state \<open>constructor\<close>, which is no
  key of the example configuration: \<open>jobStates['constructor']\<close> finds the function that
  every plain object inherits, the function is truthy, and \<open>|| 'other'\<close> does not apply.
  The job is filed under the text of the function; the bucket \<open>other\<close> does not hold it.
\<close>

theorem inherited_state_is_not_filed_under_other:
  "map_of example_jobStates ''constructor'' = None \<and>
   bucket (groupDataAndJobStat example_jobStates ''t''
             [\<lparr>state = ''constructor'', n = 1, detail = []\<rparr>] state) ''other'' = [] \<and>
   bucket (groupDataAndJobStat example_jobStates ''t''
             [\<lparr>state = ''constructor'', n = 1, detail = []\<rparr>] state)
     ''function Object() { [native code] }'' = [\<lparr>state = ''constructor'', n = 1, detail = []\<rparr>]"
  by code_simp

text \<open>
  C2. The claim: the counter of each job state is the sum of the weights \<open>n\<close> of the jobs
  carrying that state. The code at the example snapshot: the state \<open>zombie\<close> is no key of
  \<open>jobStates\<close>, so its counter starts \<open>undefined\<close>, and \<open>undefined + 3\<close> is \<open>NaN\<close>, where
  the weights of that state sum to 3. (For the configured states the counters are the
  sums: \<open>stat_entry_configured\<close>, \<open>stat_total_configured\<close>.)
\<close>

theorem stat_of_unknown_state_is_NaN:
  "stat_entry (groupDataAndJobStat example_jobStates ''t'' example_jobs state) ''zombie'' = Some NaN \<and>
   sum_list (map n (filter (\<lambda>j. state j = ''zombie'') example_jobs)) = 3"
  by code_simp

text \<open>
  C10. The queue view does not depend on the creation timestamp: two summary messages
  with the same job list and any two \<open>created\<close> values give the same queue, whatever the
  store states they arrive in.
\<close>

theorem queue_independent_of_created:
  "groupDataAndJobStat jobStates c1 arr state = groupDataAndJobStat jobStates c2 arr state \<and>
   queue (store (SOCKET_ONMESSAGE jobStates w \<lparr>name = ''summary'', created = c1, data = arr\<rparr>)) =
   queue (store (SOCKET_ONMESSAGE jobStates w' \<lparr>name = ''summary'', created = c2, data = arr\<rparr>))"
  by (simp add: SOCKET_ONMESSAGE_def groupDataAndJobStat_def)

subsection \<open>Messages (C3, C5)\<close>

text \<open>
  C3, as amended: for every prior store state and every incoming message whose name is
  \<open>summary\<close>, handling the message replaces the queue view by the grouping of the
  message's job list; the result is the same from any two prior states.
\<close>

theorem summary_message_replaces_queue:
  assumes "name m = ''summary''"
  shows "queue (store (SOCKET_ONMESSAGE jobStates w m)) =
           groupDataAndJobStat jobStates (created m) (data m) state \<and>
         queue (store (SOCKET_ONMESSAGE jobStates w m)) =
           queue (store (SOCKET_ONMESSAGE jobStates w' m))"
  using assms by (simp add: SOCKET_ONMESSAGE_def)

text \<open>
  The theorem at the example summary, arriving after an earlier summary and arriving
  first.
\<close>

theorem summary_message_replaces_queue_witness:
  "name example_summary = ''summary'' \<and>
   queue (store (SOCKET_ONMESSAGE example_jobStates
                   (SOCKET_ONMESSAGE example_jobStates initial_world example_summary)
                   example_summary)) =
   queue (store (SOCKET_ONMESSAGE example_jobStates initial_world example_summary))"
proof -
  have h: "name example_summary = ''summary''"
    by (simp add: example_summary_def)
  from summary_message_replaces_queue [OF h, THEN conjunct2] h show ?thesis
    by (intro conjI)
qed

text \<open>
  C3 as stated fails for a message of another name: after a summary, the message
  \<open>event\<close> leaves the earlier bucket \<open>other\<close> in the queue, and the same message in the
  initial state leaves the queue empty. The resulting queue is not a function of the
  message alone.
\<close>

theorem other_message_keeps_prior_queue:
  "bucket (queue (store (SOCKET_ONMESSAGE example_jobStates
              (SOCKET_ONMESSAGE example_jobStates initial_world example_summary)
              example_other_message))) ''other'' = [\<lparr>state = ''zombie'', n = 3, detail = []\<rparr>] \<and>
   bucket (queue (store (SOCKET_ONMESSAGE example_jobStates initial_world example_other_message)))
     ''other'' = []"
  by code_simp

text \<open>
  C5. For every store state and every incoming message whose name is not \<open>summary\<close>,
  handling the message leaves the queue unchanged; only \<open>socket.message\<close> changes, to the
  message.
\<close>

theorem other_message_leaves_queue:
  assumes "name m \<noteq> ''summary''"
  shows "queue (store (SOCKET_ONMESSAGE jobStates w m)) = queue (store w) \<and>
         SOCKET_ONMESSAGE jobStates w m =
           w\<lparr>store := (store w)\<lparr>socket := (socket (store w))\<lparr>message := Some m\<rparr>\<rparr>\<rparr>"
  using assms by (simp add: SOCKET_ONMESSAGE_def)

text \<open>
  The theorem at the example message \<open>event\<close>, arriving after a summary.
\<close>

theorem other_message_leaves_queue_witness:
  "name example_other_message \<noteq> ''summary'' \<and>
   queue (store (SOCKET_ONMESSAGE example_jobStates
                   (SOCKET_ONMESSAGE example_jobStates initial_world example_summary)
                   example_other_message)) =
   queue (store (SOCKET_ONMESSAGE example_jobStates initial_world example_summary)) \<and>
   message (socket (store (SOCKET_ONMESSAGE example_jobStates
                   (SOCKET_ONMESSAGE example_jobStates initial_world example_summary)
                   example_other_message))) = Some example_other_message"
proof -
  have h: "name example_other_message \<noteq> ''summary''"
    by (simp add: example_other_message_def)
  note t = other_message_leaves_queue [OF h, of example_jobStates
             "SOCKET_ONMESSAGE example_jobStates initial_world example_summary"]
  have "message (socket (store (SOCKET_ONMESSAGE example_jobStates
                   (SOCKET_ONMESSAGE example_jobStates initial_world example_summary)
                   example_other_message))) = Some example_other_message"
    by (simp add: t [THEN conjunct2])
  with h t [THEN conjunct1] show ?thesis
    by (intro conjI)
qed

subsection \<open>Connection (C4, C6, C7, C8)\<close>

text \<open>
  C4. On a socket-open event the store sends exactly one object through the socket of
  the event, the object is \<open>{ type: 'interest', data: ['queue'] }\<close>, and \<open>isConnected\<close>
  is true afterwards.
\<close>

theorem onopen_sends_interest_and_connects:
  "sent (SOCKET_ONOPEN w ev) =
     sent w @ [(currentTarget ev, \<lparr>obj_type = ''interest'', obj_data = [''queue'']\<rparr>)] \<and>
   length (sent (SOCKET_ONOPEN w ev)) = length (sent w) + 1 \<and>
   isConnected (socket (store (SOCKET_ONOPEN w ev))) = True"
  by (simp add: SOCKET_ONOPEN_def)

lemma commit_keeps_reconnectError:
  "reconnectError (socket (store w)) \<Longrightarrow> reconnectError (socket (store (commit jobStates w e)))"
  by (cases e)
    (simp_all add: SOCKET_ONOPEN_def SOCKET_ONCLOSE_def SOCKET_ONERROR_def SOCKET_ONMESSAGE_def
       SOCKET_RECONNECT_def SOCKET_RECONNECT_ERROR_def Let_def)

lemma run_keeps_reconnectError:
  "reconnectError (socket (store w)) \<Longrightarrow> reconnectError (socket (store (run jobStates w evs)))"
  unfolding run_def
  by (induction evs arbitrary: w) (simp_all add: commit_keeps_reconnectError)

text \<open>
  C6, as amended: for every store state in which \<open>reconnectError\<close> is true, the flag is
  still true after the reconnect mutation, after the socket-open mutation that follows
  it, and after any sequence of socket events: no mutation resets it.
\<close>

theorem reconnect_keeps_reconnectError:
  assumes "reconnectError (socket (store w))"
  shows "reconnectError (socket (store (SOCKET_RECONNECT w count))) \<and>
         reconnectError (socket (store (SOCKET_ONOPEN (SOCKET_RECONNECT w count) ev))) \<and>
         reconnectError (socket (store (run jobStates w evs)))"
  using assms run_keeps_reconnectError [of w jobStates evs]
  by (simp add: SOCKET_RECONNECT_def SOCKET_ONOPEN_def)

text \<open>
  The theorem at the state after a reconnect error.
\<close>

theorem reconnect_keeps_reconnectError_witness:
  "reconnectError (socket (store (SOCKET_RECONNECT_ERROR initial_world))) \<and>
   reconnectError (socket (store (SOCKET_RECONNECT (SOCKET_RECONNECT_ERROR initial_world) 1))) \<and>
   reconnectError (socket (store (run example_jobStates (SOCKET_RECONNECT_ERROR initial_world)
       [Reconnect 1, OnOpen \<lparr>currentTarget = 0\<rparr>, OnMessage example_summary])))"
proof -
  have h: "reconnectError (socket (store (SOCKET_RECONNECT_ERROR initial_world)))"
    by (simp add: SOCKET_RECONNECT_ERROR_def)
  note t = reconnect_keeps_reconnectError [OF h, of 1 "\<lparr>currentTarget = 0\<rparr>" example_jobStates
      "[Reconnect 1, OnOpen \<lparr>currentTarget = 0\<rparr>, OnMessage example_summary]"]
  from h t [THEN conjunct1] t [THEN conjunct2, THEN conjunct2] show ?thesis
    by (intro conjI)
qed

text \<open>
  C6 as stated fails: after a reconnect error the flag is true, and it is true after
  the reconnect mutation and after the socket-open mutation that follows.
\<close>

theorem reconnect_does_not_reset_flag:
  "reconnectError (socket (store (SOCKET_RECONNECT_ERROR initial_world))) \<and>
   reconnectError (socket (store (SOCKET_RECONNECT (SOCKET_RECONNECT_ERROR initial_world) 1))) \<and>
   reconnectError (socket (store (SOCKET_ONOPEN
       (SOCKET_RECONNECT (SOCKET_RECONNECT_ERROR initial_world) 1) \<lparr>currentTarget = 0\<rparr>)))"
  by (simp add: SOCKET_RECONNECT_ERROR_def SOCKET_RECONNECT_def SOCKET_ONOPEN_def)

text \<open>
  C7. Handling a reconnect-error event sets \<open>reconnectError\<close> to true and changes nothing
  else: the queue, \<open>isConnected\<close>, the stored message, the socket handle, the objects
  sent and the console are as before.
\<close>

theorem reconnect_error_sets_only_the_flag:
  "reconnectError (socket (store (SOCKET_RECONNECT_ERROR w))) = True \<and>
   queue (store (SOCKET_RECONNECT_ERROR w)) = queue (store w) \<and>
   isConnected (socket (store (SOCKET_RECONNECT_ERROR w))) = isConnected (socket (store w)) \<and>
   message (socket (store (SOCKET_RECONNECT_ERROR w))) = message (socket (store w)) \<and>
   dollar_socket (SOCKET_RECONNECT_ERROR w) = dollar_socket w \<and>
   sent (SOCKET_RECONNECT_ERROR w) = sent w \<and>
   console (SOCKET_RECONNECT_ERROR w) = console w"
  by (simp add: SOCKET_RECONNECT_ERROR_def)

lemma isConnected_commit:
  "isConnected (socket (store (commit jobStates w e))) =
     (if is_open_close e then is_open e else isConnected (socket (store w)))"
  by (cases e)
    (simp_all add: SOCKET_ONOPEN_def SOCKET_ONCLOSE_def SOCKET_ONERROR_def SOCKET_ONMESSAGE_def
       SOCKET_RECONNECT_def SOCKET_RECONNECT_ERROR_def Let_def)

lemma isConnected_foldl:
  "isConnected (socket (store (foldl (commit jobStates) w evs))) =
     (case rev (filter is_open_close evs) of
        [] \<Rightarrow> isConnected (socket (store w))
      | e # es \<Rightarrow> is_open e)"
proof (induction evs rule: rev_induct)
  case Nil
  show ?case by simp
next
  case (snoc e evs)
  show ?case
    by (simp add: isConnected_commit snoc.IH)
qed

text \<open>
  C8. In every state reached from the initial state by a sequence of socket events,
  \<open>isConnected\<close> is true exactly when the most recent open or close event was an open
  event; it is false when there was none.
\<close>

theorem isConnected_tracks_last_open_close:
  "isConnected (socket (store (run jobStates initial_world evs))) = spec_isConnected evs"
  by (simp add: run_def spec_isConnected_def isConnected_foldl initial_world_def initial_state_def
        split: list.split)

subsection \<open>Getters (C9)\<close>

lemma foldl_getters_lookup:
  "foldl (\<lambda>computedResult currentItem.
            if currentItem = ''__proto__'' then computedResult
            else computedResult(currentItem \<mapsto> group_getter currentItem))
     m arr g =
   (if g \<in> set arr \<and> g \<noteq> ''__proto__'' then Some (group_getter g) else m g)"
  by (induction arr arbitrary: m) auto

lemma mapGettersJobGroups_lookup:
  "mapGettersJobGroups arr g =
   (if g \<in> set arr \<and> g \<noteq> ''__proto__'' then Some (group_getter g) else None)"
  by (simp add: mapGettersJobGroups_def foldl_getters_lookup)

lemma group_getter_empty_queue:
  "queue s = Map.empty \<Longrightarrow> g \<notin> set object_prototype_names \<Longrightarrow>
   group_getter g s = Property (Jobs [])"
  by (simp add: group_getter_def clone_def)

lemma not_inherited_not_proto:
  "g \<notin> set object_prototype_names \<Longrightarrow> g \<noteq> ''__proto__''"
  by (auto simp: object_prototype_names_def)

text \<open>
  The queue is the initial empty object as long as no summary message has been
  handled.
\<close>

lemma commit_keeps_queue:
  "\<forall>m. e = OnMessage m \<longrightarrow> name m \<noteq> ''summary'' \<Longrightarrow>
   queue (store (commit jobStates w e)) = queue (store w)"
  by (cases e)
    (simp_all add: SOCKET_ONOPEN_def SOCKET_ONCLOSE_def SOCKET_ONERROR_def SOCKET_ONMESSAGE_def
       SOCKET_RECONNECT_def SOCKET_RECONNECT_ERROR_def Let_def)

lemma queue_empty_before_summary:
  "\<forall>e\<in>set evs. \<forall>m. e = OnMessage m \<longrightarrow> name m \<noteq> ''summary'' \<Longrightarrow>
   queue (store (run jobStates initial_world evs)) = Map.empty"
proof -
  have "\<forall>e\<in>set evs. \<forall>m. e = OnMessage m \<longrightarrow> name m \<noteq> ''summary'' \<Longrightarrow>
        queue (store (foldl (commit jobStates) w evs)) = queue (store w)" for w
  proof (induction evs arbitrary: w)
    case Nil
    show ?case by simp
  next
    case (Cons e evs)
    have "queue (store (foldl (commit jobStates) (commit jobStates w e) evs)) =
          queue (store (commit jobStates w e))"
      using Cons.prems by (intro Cons.IH) simp
    also have "\<dots> = queue (store w)"
      using Cons.prems by (intro commit_keeps_queue) simp
    finally show ?case by simp
  qed
  then show "\<forall>e\<in>set evs. \<forall>m. e = OnMessage m \<longrightarrow> name m \<noteq> ''summary'' \<Longrightarrow> ?thesis"
    by (simp add: run_def initial_world_def initial_state_def)
qed

text \<open>
  C9, as amended: in every state whose queue is still the initial empty object, the
  getter of every group of \<open>jobGroups\<close> returns an empty list, \<open>getJobsByGroupName\<close>
  returns an empty list for every group name of \<open>jobGroups\<close>, and \<open>getStateCounter\<close>
  returns 0 for every list of state names. The group names are taken to be ordinary
  names: none is the name of a member of \<open>Object.prototype\<close> or of one of the two
  function-valued getters.
\<close>

theorem pre_summary_reads_return_defaults:
  assumes "queue s = Map.empty"
  shows "(\<forall>g\<in>set jobGroups. g \<notin> set object_prototype_names \<longrightarrow>
            (\<exists>f. mapGettersJobGroups jobGroups g = Some f \<and> f s = Property (Jobs []))) \<and>
         (\<forall>g\<in>set jobGroups.
            g \<notin> set object_prototype_names \<and> g \<noteq> ''getJobsByGroupName'' \<and>
            g \<noteq> ''getStateCounter'' \<longrightarrow>
            getJobsByGroupName jobGroups s g = Property (Jobs [])) \<and>
         (\<forall>stateName. getStateCounter s stateName = Some (Num 0))"
proof (intro conjI ballI impI allI)
  fix g
  assume "g \<in> set jobGroups" and "g \<notin> set object_prototype_names"
  then show "\<exists>f. mapGettersJobGroups jobGroups g = Some f \<and> f s = Property (Jobs [])"
    using assms
    by (simp add: mapGettersJobGroups_lookup not_inherited_not_proto group_getter_empty_queue)
next
  fix g
  assume "g \<in> set jobGroups"
    and "g \<notin> set object_prototype_names \<and> g \<noteq> ''getJobsByGroupName'' \<and>
         g \<noteq> ''getStateCounter''"
  then show "getJobsByGroupName jobGroups s g = Property (Jobs [])"
    using assms
    by (simp add: getJobsByGroupName_def getters_def mapGettersJobGroups_lookup
          not_inherited_not_proto group_getter_empty_queue)
next
  fix stateName
  show "getStateCounter s stateName = Some (Num 0)"
    using assms by (simp add: getStateCounter_def)
qed

text \<open>
  The theorem at a state that is not the initial one: the socket has opened, a message
  other than a summary has arrived, and a reconnect has failed. The queue is still
  empty, the group \<open>waiting\<close> reads as an empty list, and the counter is 0 also for a list
  that holds the name of an inherited member.
\<close>

theorem pre_summary_reads_return_defaults_witness:
  "queue (store (run example_jobStates initial_world example_events)) = Map.empty \<and>
   getJobsByGroupName example_jobGroups
     (store (run example_jobStates initial_world example_events)) ''waiting'' =
     Property (Jobs []) \<and>
   getStateCounter (store (run example_jobStates initial_world example_events))
     [''pending'', ''toString''] = Some (Num 0)"
proof -
  have h: "queue (store (run example_jobStates initial_world example_events)) = Map.empty"
    by (simp add: example_events_def example_other_message_def run_def initial_world_def
          initial_state_def SOCKET_ONOPEN_def SOCKET_ONMESSAGE_def SOCKET_RECONNECT_ERROR_def
          Let_def)
  note t = pre_summary_reads_return_defaults [OF h, of example_jobGroups]
  have g: "''waiting'' \<in> set example_jobGroups"
    by (simp add: example_jobGroups_def)
  have o: "''waiting'' \<notin> set object_prototype_names \<and> ''waiting'' \<noteq> ''getJobsByGroupName'' \<and>
           ''waiting'' \<noteq> ''getStateCounter''"
    by (simp add: object_prototype_names_def)
  have a: "getJobsByGroupName example_jobGroups
             (store (run example_jobStates initial_world example_events)) ''waiting'' =
           Property (Jobs [])"
    using t [THEN conjunct2, THEN conjunct1, THEN bspec, OF g, THEN mp, OF o] .
  have b: "getStateCounter (store (run example_jobStates initial_world example_events))
             [''pending'', ''toString''] = Some (Num 0)"
    using t [THEN conjunct2, THEN conjunct2, THEN spec] .
  show ?thesis
    by (intro conjI h a b)
qed

text \<open>
  C9 as stated fails for \<open>getJobsByGroupName\<close> at a name that is no group of
  \<open>jobGroups\<close>: it reads a getter that does not exist and returns \<open>undefined\<close>, not an
  empty list.
\<close>

theorem unknown_group_name_reads_undefined:
  "getJobsByGroupName example_jobGroups initial_state ''finished'' = Undefined"
  by (simp add: getJobsByGroupName_def getters_def mapGettersJobGroups_def example_jobGroups_def
        object_prototype_names_def)

end
